theory Spec2Isabelle
  imports Complex_Main "HOL-Library.Sublist" "HOL-Library.Code_Target_Numeral"
begin

section \<open>Data model\<close>

text \<open>
  A JavaScript number that arrives through JSON is a finite double; it is modelled as the
  \<open>real\<close> it denotes, so \<open>>\<close>, \<open><\<close> and \<open>||\<close> are those of the reals. Where the code
  computes with numbers, the result is rounded to a double again (\<open>double\<close>, \<open>mul\<close>
  below). A timestamp is modelled by the epoch milliseconds that
  \<open>new Date(t).getTime()\<close> yields for it. A field that may be \<open>null\<close> or absent is an
  \<open>option\<close>.
\<close>

type_synonym timestamp = int

record ohlcv =
  Open :: real
  High :: real
  Low :: real
  Close :: real
  Volume :: real

record market_data =
  timestamps :: "timestamp list"
  ohlcv :: "ohlcv list"

record ema_series =
  timestamps :: "timestamp list"
  vals :: "real list"

record macd_series =
  timestamps :: "timestamp list"
  vals :: "real list"
  signal :: "real list"
  histogram :: "real list"

record indicator_set =
  ema_200 :: "ema_series option"
  macd :: "macd_series option"

record trade =
  entry_date :: timestamp
  exit_date :: timestamp
  entry_price :: real
  exit_price :: real
  return_pct :: real
  exit_reason :: string

record performance_summary =
  total_trades :: real
  winning_trades :: real
  losing_trades :: real
  win_rate :: real
  total_return :: real
  average_return :: real
  best_trade :: real
  worst_trade :: real
  max_drawdown :: real
  take_profit_hits :: real
  stop_loss_hits :: real
  sharpe_ratio :: real

section \<open>The store reducer (context/TradingContext.js)\<close>

record state =
  data :: "market_data option"
  indicators :: "indicator_set option"
  trades :: "trade list option"
  performance :: "performance_summary option"
  loading :: bool
  error :: "string option"
  isConnected :: bool
  isLiveTrading :: bool
  symbol :: string
  interval :: string
  daysBack :: real
  takeProfit :: real
  stopLoss :: real
  fastLength :: real
  slowLength :: real
  signalSmoothing :: real

definition initialState :: state where
  "initialState =
     \<lparr>data = None, indicators = None, trades = None, performance = None,
      loading = False, error = None,
      isConnected = False, isLiveTrading = False,
      symbol = ''ROSEUSDT'', interval = ''5m'', daysBack = 7,
      takeProfit = 2, stopLoss = 1, fastLength = 12, slowLength = 26,
      signalSmoothing = 9\<rparr>"

text \<open>
  The payload of \<open>UPDATE_CONFIG\<close> and \<open>UPDATE_STRATEGY_PARAMS\<close> is a partial object:
  every key of the state may be present (\<open>Some v\<close>) or absent (\<open>None\<close>). Keys the state
  does not have are left out of the model: no code reads them.
\<close>

record payload =
  p_data :: "market_data option option"
  p_indicators :: "indicator_set option option"
  p_trades :: "trade list option option"
  p_performance :: "performance_summary option option"
  p_loading :: "bool option"
  p_error :: "string option option"
  p_isConnected :: "bool option"
  p_isLiveTrading :: "bool option"
  p_symbol :: "string option"
  p_interval :: "string option"
  p_daysBack :: "real option"
  p_takeProfit :: "real option"
  p_stopLoss :: "real option"
  p_fastLength :: "real option"
  p_slowLength :: "real option"
  p_signalSmoothing :: "real option"

definition override :: "'a \<Rightarrow> 'a option \<Rightarrow> 'a" where
  "override cur upd = (case upd of None \<Rightarrow> cur | Some v \<Rightarrow> v)"

text \<open>The object spread \<open>{ ...state, ...action.payload }\<close>.\<close>

definition spread :: "state \<Rightarrow> payload \<Rightarrow> state" where
  "spread s p =
     \<lparr>data = override (data s) (p_data p),
      indicators = override (indicators s) (p_indicators p),
      trades = override (trades s) (p_trades p),
      performance = override (performance s) (p_performance p),
      loading = override (loading s) (p_loading p),
      error = override (error s) (p_error p),
      isConnected = override (isConnected s) (p_isConnected p),
      isLiveTrading = override (isLiveTrading s) (p_isLiveTrading p),
      symbol = override (symbol s) (p_symbol p),
      interval = override (interval s) (p_interval p),
      daysBack = override (daysBack s) (p_daysBack p),
      takeProfit = override (takeProfit s) (p_takeProfit p),
      stopLoss = override (stopLoss s) (p_stopLoss p),
      fastLength = override (fastLength s) (p_fastLength p),
      slowLength = override (slowLength s) (p_slowLength p),
      signalSmoothing = override (signalSmoothing s) (p_signalSmoothing p)\<rparr>"

text \<open>An action is its type together with its payload; \<open>OTHER\<close> is any other type string.\<close>

datatype action =
    SET_LOADING bool
  | SET_ERROR "string option"
  | SET_DATA "market_data option"
  | SET_INDICATORS "indicator_set option"
  | SET_TRADES "trade list option"
  | SET_PERFORMANCE "performance_summary option"
  | SET_CONNECTION_STATUS bool
  | SET_LIVE_TRADING bool
  | UPDATE_CONFIG payload
  | UPDATE_STRATEGY_PARAMS payload
  | CLEAR_DATA
  | OTHER string

fun tradingReducer :: "state \<Rightarrow> action \<Rightarrow> state" where
  "tradingReducer s (SET_LOADING b) = s\<lparr>loading := b, error := None\<rparr>"
| "tradingReducer s (SET_ERROR e) = s\<lparr>error := e, loading := False\<rparr>"
| "tradingReducer s (SET_DATA d) = s\<lparr>data := d, loading := False, error := None\<rparr>"
| "tradingReducer s (SET_INDICATORS i) = s\<lparr>indicators := i\<rparr>"
| "tradingReducer s (SET_TRADES t) = s\<lparr>trades := t\<rparr>"
| "tradingReducer s (SET_PERFORMANCE p) = s\<lparr>performance := p\<rparr>"
| "tradingReducer s (SET_CONNECTION_STATUS c) = s\<lparr>isConnected := c\<rparr>"
| "tradingReducer s (SET_LIVE_TRADING l) = s\<lparr>isLiveTrading := l\<rparr>"
| "tradingReducer s (UPDATE_CONFIG p) = spread s p"
| "tradingReducer s (UPDATE_STRATEGY_PARAMS p) = spread s p"
| "tradingReducer s CLEAR_DATA =
     s\<lparr>data := None, indicators := None, trades := None, performance := None,
       error := None\<rparr>"
| "tradingReducer s (OTHER t) = s"

text \<open>The states observed after each transition of a sequence of dispatched actions.\<close>

fun dispatched :: "state \<Rightarrow> action list \<Rightarrow> state list" where
  "dispatched s [] = []"
| "dispatched s (a # as) = tradingReducer s a # dispatched (tradingReducer s a) as"

definition status_exclusive :: "state \<Rightarrow> bool" where
  "status_exclusive s = (\<not> (loading s \<and> error s \<noteq> None))"

text \<open>The payload \<open>{}\<close>, to which keys are added by record update.\<close>

definition noKeys :: payload where
  "noKeys =
     \<lparr>p_data = None, p_indicators = None, p_trades = None, p_performance = None,
      p_loading = None, p_error = None, p_isConnected = None, p_isLiveTrading = None,
      p_symbol = None, p_interval = None, p_daysBack = None, p_takeProfit = None,
      p_stopLoss = None, p_fastLength = None, p_slowLength = None,
      p_signalSmoothing = None\<rparr>"

text \<open>
  A payload that keeps the two status fields apart: it does not set \<open>loading\<close> to true
  unless it also sets \<open>error\<close> to \<open>null\<close>, and it does not set a non-null \<open>error\<close> unless
  it also sets \<open>loading\<close> to false.
\<close>

definition payload_safe :: "payload \<Rightarrow> bool" where
  "payload_safe p =
     (case p_loading p of
        Some True \<Rightarrow> p_error p = Some None
      | Some False \<Rightarrow> True
      | None \<Rightarrow> (case p_error p of Some (Some m) \<Rightarrow> False | _ \<Rightarrow> True))"

fun status_safe :: "action \<Rightarrow> bool" where
  "status_safe (UPDATE_CONFIG p) = payload_safe p"
| "status_safe (UPDATE_STRATEGY_PARAMS p) = payload_safe p"
| "status_safe a = True"

section \<open>Metric classification (components/PerformanceMetrics.js)\<close>

text \<open>
  \<open>getMetricType(value, threshold = 0)\<close>: an omitted threshold is \<open>None\<close> and takes the
  default of the parameter list.
\<close>

definition getMetricType :: "real \<Rightarrow> real option \<Rightarrow> string" where
  "getMetricType v threshold =
     (let th = override 0 threshold
      in if v > th then ''positive''
         else if v < th then ''negative''
         else ''neutral'')"

text \<open>The type given to the icon and to the value of the max drawdown card.\<close>

definition maxDrawdownType :: "performance_summary \<Rightarrow> string" where
  "maxDrawdownType perf = getMetricType (- max_drawdown perf) (Some (- 10))"

section \<open>Double arithmetic and number formatting\<close>

text \<open>
  The number of binary digits of a natural number, and with it \<open>\<lfloor>log\<^sub>2 a\<rfloor>\<close> for a
  positive real.
\<close>

fun bits :: "nat \<Rightarrow> nat" where
  "bits n = (if n = 0 then 0 else Suc (bits (n div 2)))"

definition ilog2 :: "real \<Rightarrow> int" where
  "ilog2 a = (if a \<ge> 1 then int (bits (nat \<lfloor>a\<rfloor>)) - 1
              else - int (bits (nat \<lceil>1 / a\<rceil> - 1)))"

definition pow2 :: "int \<Rightarrow> real" where
  "pow2 k = (if k \<ge> 0 then 2 ^ nat k else 1 / 2 ^ nat (- k))"

definition roundTiesToEven :: "real \<Rightarrow> int" where
  "roundTiesToEven q =
     (let n = \<lfloor>q\<rfloor>; d = q - of_int n
      in if d < 1 / 2 then n else if d > 1 / 2 then n + 1
         else if even n then n else n + 1)"

text \<open>
  The double (IEEE 754 binary64, round to nearest, ties to even) nearest to a real: 53
  significant bits, the exponent not below that of the subnormal numbers. A real that is a
  double is left as it is, and a decimal such as \<open>0.013\<close> is taken to the double that the
  literal denotes. Overflow to \<open>Infinity\<close> (from \<open>2^1024\<close>) is not represented: there the
  result is the rounded real, and \<open>toFixed\<close> below gives no string for it.
\<close>

definition double :: "real \<Rightarrow> real" where
  "double x =
     (if x = 0 then 0
      else let a = \<bar>x\<bar>;
               e = max (- 1022) (ilog2 a);
               u = pow2 (e - 52)
           in sgn x * of_int (roundTiesToEven (a / u)) * u)"

text \<open>The product \<open>x * y\<close> of two numbers as the code computes it.\<close>

definition mul :: "real \<Rightarrow> real \<Rightarrow> real" where
  "mul x y = double (double x * double y)"

text \<open>
  \<open>Number.prototype.toFixed\<close> as ECMAScript defines it for \<open>f\<close> up to 100 and a magnitude
  below \<open>10^21\<close>: the sign, then the integer \<open>n\<close> nearest to \<open>x * 10^f\<close> (the larger one on
  a tie), written in decimal, padded with zeros to \<open>f + 1\<close> digits, with a point before the
  last \<open>f\<close> digits. The result is \<open>None\<close> where this model gives no string: from \<open>10^21\<close>
  on JavaScript prints the number in exponent form, and above 100 digits it raises a
  \<open>RangeError\<close>.
\<close>

definition digit_char :: "nat \<Rightarrow> char" where
  "digit_char d = ''0123456789'' ! d"

fun decimal :: "nat \<Rightarrow> string" where
  "decimal n =
     (if n < 10 then [digit_char n] else decimal (n div 10) @ [digit_char (n mod 10)])"

declare bits.simps [simp del] decimal.simps [simp del]

definition toFixed :: "nat \<Rightarrow> real \<Rightarrow> string option" where
  "toFixed f x =
     (if f > 100 \<or> \<bar>x\<bar> \<ge> 10 ^ 21 then None
      else let n = nat \<lfloor>\<bar>x\<bar> * 10 ^ f + 1 / 2\<rfloor>;
               d = decimal n;
               m = replicate (f + 1 - length d) (CHR ''0'') @ d;
               k = length m
           in Some ((if x < 0 then ''-'' else []) @
                    (if f = 0 then m else take (k - f) m @ ''.'' @ drop (k - f) m)))"

section \<open>Chart traces (components/MACDChart.js, components/CandlestickChart.js)\<close>

text \<open>
  One constructor for each trace object the two charts build, carrying the fields computed
  from the inputs (\<open>x\<close>, \<open>y\<close> or the four price lists, then marker colours and texts); the
  constant styling fields are left out. A \<open>y\<close> read from an array by index may be
  \<open>undefined\<close>, hence the \<open>option\<close> in the crossover trace.
\<close>

datatype trace =
    Price "timestamp list" "real list" "real list" "real list" "real list"
  | EMA_200 "timestamp list" "real list"
  | Buy_Signals "timestamp list" "real list"
  | Exit_Signals "timestamp list" "real list" "string list" "string option list"
  | MACD_Line "timestamp list" "real list"
  | Signal_Line "timestamp list" "real list"
  | Histogram "timestamp list" "real list" "string list"
  | MACD_Crossover "timestamp list" "real option list"

text \<open>\<open>Array.prototype.findIndex\<close>: the first index whose element passes, or \<open>-1\<close>.\<close>

fun findIndexFrom :: "('a \<Rightarrow> bool) \<Rightarrow> 'a list \<Rightarrow> int \<Rightarrow> int" where
  "findIndexFrom P [] k = - 1"
| "findIndexFrom P (x # xs) k = (if P x then k else findIndexFrom P xs (k + 1))"

definition findIndex :: "('a \<Rightarrow> bool) \<Rightarrow> 'a list \<Rightarrow> int" where
  "findIndex P xs = findIndexFrom P xs 0"

text \<open>The array read \<open>xs[i]\<close>: \<open>undefined\<close> out of range.\<close>

definition nth_opt :: "'a list \<Rightarrow> int \<Rightarrow> 'a option" where
  "nth_opt xs i = (if 0 \<le> i \<and> i < int (length xs) then Some (xs ! nat i) else None)"

text \<open>\<open>.filter(Boolean)\<close> on a list of points and \<open>null\<close>s.\<close>

fun filterBoolean :: "'a option list \<Rightarrow> 'a list" where
  "filterBoolean [] = []"
| "filterBoolean (None # ps) = filterBoolean ps"
| "filterBoolean (Some p # ps) = p # filterBoolean ps"

text \<open>The body of the \<open>trades.map\<close> callback of the MACD chart: a point \<open>(x, y)\<close> or \<open>null\<close>.\<close>

definition crossoverPoint :: "macd_series \<Rightarrow> trade \<Rightarrow> (timestamp \<times> real option) option" where
  "crossoverPoint m t =
     (let entryIndex = findIndex (\<lambda>ts. ts \<ge> entry_date t) (macd_series.timestamps m)
      in if entryIndex \<ge> 0 then Some (entry_date t, nth_opt (macd_series.vals m) entryIndex)
         else None)"

definition crossoverPoints :: "macd_series \<Rightarrow> trade list \<Rightarrow> (timestamp \<times> real option) list" where
  "crossoverPoints m ts = filterBoolean (map (crossoverPoint m) ts)"

definition MACDChart :: "indicator_set option \<Rightarrow> trade list option \<Rightarrow> trace list" where
  "MACDChart inds trs =
     (case inds of
        None \<Rightarrow> []
      | Some ind \<Rightarrow>
          (case macd ind of
             None \<Rightarrow> []
           | Some m \<Rightarrow>
               [MACD_Line (macd_series.timestamps m) (macd_series.vals m),
                Signal_Line (macd_series.timestamps m) (signal m),
                Histogram (macd_series.timestamps m) (histogram m)
                  (map (\<lambda>v. if v \<ge> 0 then ''#00ff88'' else ''#ff4976'') (histogram m))]
               @ (case trs of
                    None \<Rightarrow> []
                  | Some ts \<Rightarrow>
                      if length ts > 0
                      then (let ps = crossoverPoints m ts
                            in if length ps > 0 then [MACD_Crossover (map fst ps) (map snd ps)]
                               else [])
                      else [])))"

text \<open>
  The colour and the hover text of an exit point; the text is \<open>None\<close> where \<open>toFixed\<close> is.
\<close>

definition exitColor :: "real \<Rightarrow> string" where
  "exitColor r = (if r > 0 then ''#00ff88'' else ''#ff4976'')"

definition exitText :: "string \<Rightarrow> real \<Rightarrow> string option" where
  "exitText reason r =
     map_option (\<lambda>s. reason @ ''<br>Return: '' @ s @ ''%'') (toFixed 2 (mul r 100))"

definition CandlestickChart ::
  "market_data option \<Rightarrow> indicator_set option \<Rightarrow> trade list option \<Rightarrow> trace list" where
  "CandlestickChart dat inds trs =
     (case dat of
        None \<Rightarrow> []
      | Some d \<Rightarrow>
          (case inds of
             None \<Rightarrow> []
           | Some ind \<Rightarrow>
               [Price (market_data.timestamps d) (map Open (ohlcv d)) (map High (ohlcv d))
                  (map Low (ohlcv d)) (map Close (ohlcv d))]
               @ (case ema_200 ind of
                    None \<Rightarrow> []
                  | Some e \<Rightarrow>
                      if length (ema_series.vals e) > 0
                      then [EMA_200 (ema_series.timestamps e) (ema_series.vals e)]
                      else [])
               @ (case trs of
                    None \<Rightarrow> []
                  | Some ts \<Rightarrow>
                      if length ts > 0
                      then (let entryPoints = map (\<lambda>t. (entry_date t, entry_price t)) ts;
                                exitPoints =
                                  map (\<lambda>t. (exit_date t, exit_price t, return_pct t, exit_reason t)) ts
                            in (if length entryPoints > 0
                                then [Buy_Signals (map fst entryPoints) (map snd entryPoints)]
                                else [])
                             @ (if length exitPoints > 0
                                then [Exit_Signals
                                        (map (\<lambda>(x, y, r, reason). x) exitPoints)
                                        (map (\<lambda>(x, y, r, reason). y) exitPoints)
                                        (map (\<lambda>(x, y, r, reason). exitColor r) exitPoints)
                                        (map (\<lambda>(x, y, r, reason). exitText reason r) exitPoints)]
                                else []))
                      else [])))"

section \<open>The backend gateway (hooks/useTradingData.js)\<close>

text \<open>The six \<open>useState\<close> cells of the hook.\<close>

record hook_state =
  data :: "market_data option"
  indicators :: "indicator_set option"
  trades :: "trade list option"
  performance :: "performance_summary option"
  loading :: bool
  error :: "string option"

text \<open>
  What a \<open>catch\<close> clause receives: the rejection of an axios call, with
  \<open>err.response?.data?.error\<close> when the server answered and \<open>err.message\<close>; an
  \<open>Error\<close> the hook threw itself; or the \<open>TypeError\<close> of a property read on a missing
  object, whose message the engine chooses.
\<close>

datatype thrown =
    AxiosError "string option" string
  | Error string
  | TypeError

definition typeErrorMessage :: string where
  "typeErrorMessage = ''Cannot read properties of undefined''"

fun response_error :: "thrown \<Rightarrow> string option" where
  "response_error (AxiosError e m) = e"
| "response_error (Error m) = None"
| "response_error TypeError = None"

fun message :: "thrown \<Rightarrow> string" where
  "message (AxiosError e m) = m"
| "message (Error m) = m"
| "message TypeError = typeErrorMessage"

text \<open>
  What awaiting an axios call gives: a rejection, or a response whose \<open>data\<close> is the parsed
  body (\<open>None\<close> when the body is missing).
\<close>

datatype 'a outcome = Rejected thrown | Resolved "'a option"

text \<open>\<open>a || d\<close> on a string and on a number that may be absent.\<close>

definition or_str :: "string option \<Rightarrow> string \<Rightarrow> string" where
  "or_str a d = (case a of None \<Rightarrow> d | Some s \<Rightarrow> if s = [] then d else s)"

definition or_num :: "real option \<Rightarrow> real \<Rightarrow> real" where
  "or_num a d = (case a of None \<Rightarrow> d | Some v \<Rightarrow> if v = 0 then d else v)"

text \<open>\<open>err.response?.data?.error || err.message || d\<close>.\<close>

definition errorMessage :: "thrown \<Rightarrow> string \<Rightarrow> string" where
  "errorMessage err d = or_str (Some (or_str (response_error err) (message err))) d"

record data_response =
  success :: bool
  data :: "market_data option"
  indicators :: "indicator_set option"
  error :: "string option"

record backtest_results =
  trades :: "trade list option"
  performance :: "performance_summary option"

record backtest_response =
  success :: bool
  results :: "backtest_results option"
  error :: "string option"

record symbols_response =
  symbols :: "string list option"

record intervals_response =
  intervals :: "string list option"

text \<open>The \<open>config\<close> argument of \<open>runBacktest\<close> and the body it posts.\<close>

record config =
  days_back :: "real option"
  timezone :: "string option"
  take_profit :: "real option"
  stop_loss :: "real option"
  fast_length :: "real option"
  slow_length :: "real option"
  signal_smoothing :: "real option"

record backtest_body =
  days_back :: real
  timezone :: string
  take_profit :: real
  stop_loss :: real
  fast_length :: real
  slow_length :: real
  signal_smoothing :: real

definition backtestBody :: "config \<Rightarrow> backtest_body" where
  "backtestBody c =
     \<lparr>days_back = or_num (config.days_back c) 7,
      timezone = or_str (config.timezone c) ''Asia/Singapore'',
      take_profit = or_num (config.take_profit c) 0.02,
      stop_loss = or_num (config.stop_loss c) 0.01,
      fast_length = or_num (config.fast_length c) 12,
      slow_length = or_num (config.slow_length c) 26,
      signal_smoothing = or_num (config.signal_smoothing c) 9\<rparr>"

text \<open>
  The \<open>try\<close> block of \<open>fetchData\<close>: the state after it and what it threw, if anything.
\<close>

definition fetchData_try :: "hook_state \<Rightarrow> data_response outcome \<Rightarrow> hook_state \<times> thrown option" where
  "fetchData_try st res =
     (case res of
        Rejected err \<Rightarrow> (st, Some err)
      | Resolved None \<Rightarrow> (st, Some TypeError)
      | Resolved (Some r) \<Rightarrow>
          if data_response.success r
          then (st\<lparr>hook_state.data := data_response.data r,
                   hook_state.indicators := data_response.indicators r\<rparr>, None)
          else (st, Some (Error (or_str (data_response.error r) ''Failed to fetch data''))))"

text \<open>
  \<open>fetchData\<close>: the transport maps the request \<open>(symbol, interval, days, timezone)\<close> to the
  outcome of the awaited call. The function returns normally whatever happened.
\<close>

definition fetchData ::
  "(string \<times> string \<times> real \<times> string \<Rightarrow> data_response outcome) \<Rightarrow> hook_state \<Rightarrow>
     string \<Rightarrow> string \<Rightarrow> real option \<Rightarrow> string option \<Rightarrow> hook_state" where
  "fetchData get st smb itv days tz =
     (let st1 = st\<lparr>hook_state.loading := True\<rparr>;
          st2 = st1\<lparr>hook_state.error := None\<rparr>;
          res = get (smb, itv, override 7 days, override ''Asia/Singapore'' tz);
          (st3, exn) = fetchData_try st2 res;
          st4 = (case exn of
                   None \<Rightarrow> st3
                 | Some err \<Rightarrow>
                     st3\<lparr>hook_state.error := Some (errorMessage err ''Failed to fetch data'')\<rparr>)
      in st4\<lparr>hook_state.loading := False\<rparr>)"

text \<open>The \<open>try\<close> block of \<open>runBacktest\<close>: the state after it, and what it threw or returned.\<close>

definition runBacktest_try ::
  "hook_state \<Rightarrow> backtest_response outcome \<Rightarrow> hook_state \<times> (thrown + backtest_results)" where
  "runBacktest_try st res =
     (case res of
        Rejected err \<Rightarrow> (st, Inl err)
      | Resolved None \<Rightarrow> (st, Inl TypeError)
      | Resolved (Some r) \<Rightarrow>
          if backtest_response.success r
          then (case results r of
                  None \<Rightarrow> (st, Inl TypeError)
                | Some rs \<Rightarrow>
                    (st\<lparr>hook_state.trades := Some (override [] (backtest_results.trades rs)),
                        hook_state.performance := backtest_results.performance rs\<rparr>, Inr rs))
          else (st, Inl (Error (or_str (backtest_response.error r) ''Backtest failed''))))"

text \<open>
  \<open>runBacktest\<close>: the final state of the hook together with the error rethrown to the
  caller (\<open>Inl\<close>) or the results returned (\<open>Inr\<close>).
\<close>

definition runBacktest ::
  "(string \<times> string \<times> backtest_body \<Rightarrow> backtest_response outcome) \<Rightarrow> hook_state \<Rightarrow>
     string \<Rightarrow> string \<Rightarrow> config \<Rightarrow> hook_state \<times> (thrown + backtest_results)" where
  "runBacktest post st smb itv c =
     (let st1 = st\<lparr>hook_state.loading := True\<rparr>;
          st2 = st1\<lparr>hook_state.error := None\<rparr>;
          res = post (smb, itv, backtestBody c);
          (st3, r) = runBacktest_try st2 res;
          st4 = (case r of
                   Inr rs \<Rightarrow> st3
                 | Inl err \<Rightarrow>
                     st3\<lparr>hook_state.error := Some (errorMessage err ''Backtest failed'')\<rparr>)
      in (st4\<lparr>hook_state.loading := False\<rparr>, r))"

text \<open>
  \<open>getSymbols\<close> and \<open>getIntervals\<close>: the state of the hook is passed through to show that
  they leave it alone; the result is \<open>Inr\<close> since nothing leaves the \<open>catch\<close> clause.
\<close>

definition getSymbols ::
  "symbols_response outcome \<Rightarrow> hook_state \<Rightarrow> hook_state \<times> (thrown + string list)" where
  "getSymbols res st =
     (case res of
        Rejected err \<Rightarrow> (st, Inr [])
      | Resolved None \<Rightarrow> (st, Inr [])
      | Resolved (Some r) \<Rightarrow> (st, Inr (override [] (symbols r))))"

definition getIntervals ::
  "intervals_response outcome \<Rightarrow> hook_state \<Rightarrow> hook_state \<times> (thrown + string list)" where
  "getIntervals res st =
     (case res of
        Rejected err \<Rightarrow> (st, Inr [])
      | Resolved None \<Rightarrow> (st, Inr [])
      | Resolved (Some r) \<Rightarrow> (st, Inr (override [] (intervals r))))"

text \<open>The initial values of the six cells.\<close>

definition initialHook :: hook_state where
  "initialHook =
     \<lparr>hook_state.data = None, hook_state.indicators = None, hook_state.trades = None,
      hook_state.performance = None, hook_state.loading = False, hook_state.error = None\<rparr>"

text \<open>A config object without keys, to which keys are added by record update.\<close>

definition noConfig :: config where
  "noConfig =
     \<lparr>config.days_back = None, config.timezone = None, config.take_profit = None,
      config.stop_loss = None, config.fast_length = None, config.slow_length = None,
      config.signal_smoothing = None\<rparr>"

text \<open>The response \<open>{success: false, error: "insufficient data"}\<close>, whatever else it carries.\<close>

definition insufficient :: "backtest_results option \<Rightarrow> backtest_response" where
  "insufficient rs = \<lparr>success = False, results = rs, error = Some ''insufficient data''\<rparr>"

text \<open>The hook shows an error: the \<open>error\<close> cell holds a non-empty message.\<close>

definition surfaced :: "hook_state \<Rightarrow> bool" where
  "surfaced st = (case hook_state.error st of None \<Rightarrow> False | Some m \<Rightarrow> m \<noteq> [])"

text \<open>Sample inputs: an oscillator and a dataset of three bars, an EMA of two points, a losing trade.\<close>

definition sampleTrade :: trade where
  "sampleTrade =
     \<lparr>entry_date = 15, exit_date = 25, entry_price = 100, exit_price = 98.7,
      return_pct = - 0.013, exit_reason = ''stop_loss''\<rparr>"

definition sampleMacd :: macd_series where
  "sampleMacd =
     \<lparr>macd_series.timestamps = [10, 20, 30], macd_series.vals = [0.1, 0.2, 0.3],
      signal = [0.1, 0.1, 0.1], histogram = [0, 0.1, 0.2]\<rparr>"

definition sampleEma :: ema_series where
  "sampleEma = \<lparr>ema_series.timestamps = [20, 30], ema_series.vals = [99, 99.5]\<rparr>"

definition sampleIndicators :: indicator_set where
  "sampleIndicators = \<lparr>ema_200 = Some sampleEma, macd = Some sampleMacd\<rparr>"

definition sampleData :: market_data where
  "sampleData =
     \<lparr>market_data.timestamps = [10, 20, 30],
      ohlcv = [\<lparr>Open = 100, High = 101, Low = 99, Close = 100.5, Volume = 10\<rparr>,
               \<lparr>Open = 100.5, High = 102, Low = 100, Close = 101, Volume = 12\<rparr>,
               \<lparr>Open = 101, High = 101, Low = 98, Close = 98.7, Volume = 20\<rparr>]\<rparr>"

text \<open>A sample performance summary.\<close>

definition samplePerformance :: performance_summary where
  "samplePerformance =
     \<lparr>total_trades = 10, winning_trades = 6, losing_trades = 4, win_rate = 60,
      total_return = 3.5, average_return = 0.35, best_trade = 2, worst_trade = - 1,
      max_drawdown = 4.2, take_profit_hits = 6, stop_loss_hits = 4, sharpe_ratio = 1.2\<rparr>"

section \<open>Properties of the store reducer\<close>

lemma spread_exclusive:
  "payload_safe p \<Longrightarrow> status_exclusive s \<Longrightarrow> status_exclusive (spread s p)"
  by (auto simp: payload_safe_def status_exclusive_def spread_def override_def
      split: option.splits bool.splits)

lemma reducer_exclusive:
  "status_safe a \<Longrightarrow> status_exclusive s \<Longrightarrow> status_exclusive (tradingReducer s a)"
  by (cases a) (simp_all add: spread_exclusive, simp_all add: status_exclusive_def)

text \<open>
  C1, as stated, fails: from the initial state, one \<open>UPDATE_CONFIG\<close> whose payload carries
  \<open>loading: true\<close> and \<open>error: 'x'\<close> leaves \<open>loading\<close> true together with a non-null
  \<open>error\<close>, since the reducer merges whatever keys the payload has.
\<close>

theorem patch_breaks_status_exclusion:
  "\<not> status_exclusive
       (tradingReducer initialState
          (UPDATE_CONFIG (noKeys\<lparr>p_loading := Some True, p_error := Some (Some ''x'')\<rparr>)))"
  by (simp add: status_exclusive_def spread_def override_def noKeys_def initialState_def)

text \<open>
  C1, amended: starting from a state in which \<open>loading\<close> and a non-null \<open>error\<close> do not
  hold together, and dispatching any sequence of actions whose \<open>UPDATE_CONFIG\<close> and
  \<open>UPDATE_STRATEGY_PARAMS\<close> payloads keep the two status fields apart
  (\<open>payload_safe\<close>), the state after each transition never has \<open>loading\<close> true together
  with a non-null \<open>error\<close>.
\<close>

theorem status_exclusive_dispatched:
  "status_exclusive s \<Longrightarrow> list_all status_safe as \<Longrightarrow>
     list_all status_exclusive (dispatched s as)"
  by (induction as arbitrary: s) (simp_all add: reducer_exclusive)

theorem status_exclusive_dispatched_witness:
  "status_exclusive initialState \<and>
   list_all status_safe
     [SET_LOADING True, SET_ERROR (Some ''x''),
      UPDATE_CONFIG (noKeys\<lparr>p_symbol := Some ''BTCUSDT''\<rparr>),
      UPDATE_STRATEGY_PARAMS (noKeys\<lparr>p_loading := Some True, p_error := Some None\<rparr>),
      CLEAR_DATA] \<and>
   list_all status_exclusive
     (dispatched initialState
        [SET_LOADING True, SET_ERROR (Some ''x''),
         UPDATE_CONFIG (noKeys\<lparr>p_symbol := Some ''BTCUSDT''\<rparr>),
         UPDATE_STRATEGY_PARAMS (noKeys\<lparr>p_loading := Some True, p_error := Some None\<rparr>),
         CLEAR_DATA])"
proof -
  have a: "status_exclusive initialState"
    by (simp add: status_exclusive_def initialState_def)
  have b: "list_all status_safe
     [SET_LOADING True, SET_ERROR (Some ''x''),
      UPDATE_CONFIG (noKeys\<lparr>p_symbol := Some ''BTCUSDT''\<rparr>),
      UPDATE_STRATEGY_PARAMS (noKeys\<lparr>p_loading := Some True, p_error := Some None\<rparr>),
      CLEAR_DATA]"
    by (simp add: payload_safe_def noKeys_def)
  show ?thesis using a b status_exclusive_dispatched [OF a b] by simp
qed

text \<open>
  C3: from every state, \<open>CLEAR_DATA\<close> sets \<open>data\<close>, \<open>indicators\<close>, \<open>trades\<close>,
  \<open>performance\<close> and \<open>error\<close> to \<open>null\<close> and leaves \<open>loading\<close>, \<open>isConnected\<close> and
  \<open>isLiveTrading\<close> as they were.
\<close>

theorem clear_data_frame:
  "state.data (tradingReducer s CLEAR_DATA) = None \<and>
   state.indicators (tradingReducer s CLEAR_DATA) = None \<and>
   state.trades (tradingReducer s CLEAR_DATA) = None \<and>
   state.performance (tradingReducer s CLEAR_DATA) = None \<and>
   state.error (tradingReducer s CLEAR_DATA) = None \<and>
   state.loading (tradingReducer s CLEAR_DATA) = state.loading s \<and>
   isConnected (tradingReducer s CLEAR_DATA) = isConnected s \<and>
   isLiveTrading (tradingReducer s CLEAR_DATA) = isLiveTrading s"
  by simp

text \<open>
  C10: from every state and for every payload \<open>b\<close>, \<open>SET_LOADING\<close> sets \<open>error\<close> to
  \<open>null\<close>; so ending a loading phase with \<open>SET_LOADING false\<close> erases an error that
  was set.
\<close>

theorem set_loading_erases_error:
  "state.error (tradingReducer s (SET_LOADING b)) = None \<and>
   state.loading (tradingReducer s (SET_LOADING b)) = b \<and>
   state.error (tradingReducer (s\<lparr>state.error := Some m\<rparr>) (SET_LOADING False)) = None"
  by simp

section \<open>Properties of the metric classification\<close>

text \<open>
  C6, as stated, fails in its last sentence: a \<open>max_drawdown\<close> of \<open>-12.5\<close> is classified
  \<open>positive\<close> although its magnitude is not below 10, since the card compares
  \<open>-max_drawdown\<close> with \<open>-10\<close> and never takes a magnitude.
\<close>

theorem drawdown_magnitude_not_classified:
  "\<not> (maxDrawdownType (samplePerformance\<lparr>max_drawdown := - 12.5\<rparr>) = ''positive'' \<longleftrightarrow>
        \<bar>max_drawdown (samplePerformance\<lparr>max_drawdown := - 12.5\<rparr>)\<bar> < 10)"
  by (simp add: getMetricType_def maxDrawdownType_def override_def)

text \<open>
  C6, amended: \<open>getMetricType\<close> returns \<open>positive\<close> iff the value is above the threshold,
  \<open>negative\<close> iff it is below, \<open>neutral\<close> otherwise; an omitted threshold is 0; the five
  sample values are classified as listed; and the max drawdown card applies it to
  \<open>-max_drawdown\<close> with threshold \<open>-10\<close>, so it is \<open>positive\<close> exactly when
  \<open>max_drawdown\<close> is below 10. That is the magnitude being below 10 whenever
  \<open>max_drawdown\<close> is above \<open>-10\<close> (in particular when it is not negative); a
  \<open>max_drawdown\<close> of \<open>-10\<close> or less is \<open>positive\<close> with a magnitude of 10 or more.
\<close>

theorem getMetricType_classifies:
  "(getMetricType v (Some th) = ''positive'' \<longleftrightarrow> v > th) \<and>
   (getMetricType v (Some th) = ''negative'' \<longleftrightarrow> v < th) \<and>
   (getMetricType v (Some th) = ''neutral'' \<longleftrightarrow> v = th) \<and>
   getMetricType v None = getMetricType v (Some 0) \<and>
   getMetricType 5 (Some 0) = ''positive'' \<and>
   getMetricType (- 5) (Some 0) = ''negative'' \<and>
   getMetricType 0 (Some 0) = ''neutral'' \<and>
   getMetricType 45 (Some 50) = ''negative'' \<and>
   getMetricType 1.5 (Some 1) = ''positive'' \<and>
   maxDrawdownType perf = getMetricType (- max_drawdown perf) (Some (- 10)) \<and>
   (maxDrawdownType perf = ''positive'' \<longleftrightarrow> max_drawdown perf < 10) \<and>
   (maxDrawdownType perf = ''negative'' \<longleftrightarrow> max_drawdown perf > 10) \<and>
   (maxDrawdownType perf = ''neutral'' \<longleftrightarrow> max_drawdown perf = 10) \<and>
   (- 10 < max_drawdown perf \<longrightarrow>
      (maxDrawdownType perf = ''positive'' \<longleftrightarrow> \<bar>max_drawdown perf\<bar> < 10)) \<and>
   (max_drawdown perf \<le> - 10 \<longrightarrow>
      maxDrawdownType perf = ''positive'' \<and> \<not> \<bar>max_drawdown perf\<bar> < 10)"
  by (auto simp: getMetricType_def maxDrawdownType_def override_def)

theorem getMetricType_classifies_witness:
  "- 10 < max_drawdown (samplePerformance\<lparr>max_drawdown := 4.2\<rparr>) \<and>
   maxDrawdownType (samplePerformance\<lparr>max_drawdown := 4.2\<rparr>) = ''positive'' \<and>
   max_drawdown (samplePerformance\<lparr>max_drawdown := - 12.5\<rparr>) \<le> - 10 \<and>
   maxDrawdownType (samplePerformance\<lparr>max_drawdown := - 12.5\<rparr>) = ''positive'' \<and>
   maxDrawdownType (samplePerformance\<lparr>max_drawdown := 10\<rparr>) = ''neutral'' \<and>
   maxDrawdownType (samplePerformance\<lparr>max_drawdown := 12.5\<rparr>) = ''negative''"
proof -
  from getMetricType_classifies [where perf = "samplePerformance\<lparr>max_drawdown := 4.2\<rparr>"]
  have a: "maxDrawdownType (samplePerformance\<lparr>max_drawdown := 4.2\<rparr>) = ''positive''"
    by simp
  from getMetricType_classifies [where perf = "samplePerformance\<lparr>max_drawdown := - 12.5\<rparr>"]
  have b: "maxDrawdownType (samplePerformance\<lparr>max_drawdown := - 12.5\<rparr>) = ''positive''"
    by simp
  from getMetricType_classifies [where perf = "samplePerformance\<lparr>max_drawdown := 10\<rparr>"]
  have c: "maxDrawdownType (samplePerformance\<lparr>max_drawdown := 10\<rparr>) = ''neutral''"
    by simp
  from getMetricType_classifies [where perf = "samplePerformance\<lparr>max_drawdown := 12.5\<rparr>"]
  have d: "maxDrawdownType (samplePerformance\<lparr>max_drawdown := 12.5\<rparr>) = ''negative''"
    by simp
  from a b c d show ?thesis by simp
qed

section \<open>Properties of the backend gateway\<close>

lemma errorMessage_nonempty: "d \<noteq> [] \<Longrightarrow> errorMessage err d \<noteq> []"
  by (simp add: errorMessage_def or_str_def split: option.splits)

text \<open>
  C4: from every prior state of the hook, when the backtest request is answered by
  \<open>{success: false, error: "insufficient data"}\<close>, \<open>runBacktest\<close> ends with
  \<open>error = "insufficient data"\<close> and \<open>loading = false\<close>, with \<open>trades\<close> and
  \<open>performance\<close> as they were before the call; the error is rethrown to the caller.
\<close>

theorem runBacktest_domain_failure:
  "hook_state.error (fst (runBacktest (\<lambda>req. Resolved (Some (insufficient rs))) st smb itv c))
     = Some ''insufficient data'' \<and>
   hook_state.loading (fst (runBacktest (\<lambda>req. Resolved (Some (insufficient rs))) st smb itv c))
     = False \<and>
   hook_state.trades (fst (runBacktest (\<lambda>req. Resolved (Some (insufficient rs))) st smb itv c))
     = hook_state.trades st \<and>
   hook_state.performance (fst (runBacktest (\<lambda>req. Resolved (Some (insufficient rs))) st smb itv c))
     = hook_state.performance st \<and>
   snd (runBacktest (\<lambda>req. Resolved (Some (insufficient rs))) st smb itv c)
     = Inl (Error ''insufficient data'')"
  by (simp add: runBacktest_def runBacktest_try_def insufficient_def errorMessage_def or_str_def)

text \<open>
  C7: when the request is rejected, when the response has no body, and when the body has no
  list, \<open>getSymbols\<close> and \<open>getIntervals\<close> return the empty list, throw nothing and leave the
  state of the hook as it was; whereas \<open>fetchData\<close> and \<open>runBacktest\<close>, on a rejected
  request, a response without body, a response with \<open>success\<close> false or (for the backtest) a
  successful response without results, end with a non-empty message in \<open>error\<close>.
\<close>

theorem metadata_calls_degrade_data_calls_surface:
  "getSymbols (Rejected err) st = (st, Inr []) \<and>
   getSymbols (Resolved None) st = (st, Inr []) \<and>
   getSymbols (Resolved (Some \<lparr>symbols = None\<rparr>)) st = (st, Inr []) \<and>
   getIntervals (Rejected err) st = (st, Inr []) \<and>
   getIntervals (Resolved None) st = (st, Inr []) \<and>
   getIntervals (Resolved (Some \<lparr>intervals = None\<rparr>)) st = (st, Inr []) \<and>
   surfaced (fetchData (\<lambda>req. Rejected err) st smb itv days tz) \<and>
   surfaced (fetchData (\<lambda>req. Resolved None) st smb itv days tz) \<and>
   surfaced (fetchData (\<lambda>req. Resolved (Some (dr\<lparr>data_response.success := False\<rparr>)))
               st smb itv days tz) \<and>
   surfaced (fst (runBacktest (\<lambda>req. Rejected err) st smb itv c)) \<and>
   surfaced (fst (runBacktest (\<lambda>req. Resolved None) st smb itv c)) \<and>
   surfaced (fst (runBacktest
                    (\<lambda>req. Resolved (Some (br\<lparr>backtest_response.success := False\<rparr>)))
                    st smb itv c)) \<and>
   surfaced (fst (runBacktest
                    (\<lambda>req. Resolved (Some (br\<lparr>backtest_response.success := True,
                                                 results := None\<rparr>)))
                    st smb itv c))"
  by (simp add: getSymbols_def getIntervals_def override_def fetchData_def fetchData_try_def
      runBacktest_def runBacktest_try_def surfaced_def errorMessage_nonempty)

text \<open>
  C9: in the body that \<open>runBacktest\<close> posts, every key takes its default when the key is
  absent and also when its value is falsy: 0 for the six numeric keys (so a \<open>take_profit\<close>
  of 0 is sent as 0.02 and a \<open>stop_loss\<close> of 0 as 0.01), the empty string for \<open>timezone\<close>.
  So no numeric key of the posted body is ever 0 and its \<open>timezone\<close> is never empty, while
  every other value is sent as it is. The body \<open>backtestBody c\<close> is what the transport
  receives.
\<close>

theorem backtestBody_falsy_defaults:
  "backtest_body.days_back (backtestBody (c\<lparr>config.days_back := None\<rparr>)) = 7 \<and>
   backtest_body.take_profit (backtestBody (c\<lparr>config.take_profit := None\<rparr>)) = 0.02 \<and>
   backtest_body.stop_loss (backtestBody (c\<lparr>config.stop_loss := None\<rparr>)) = 0.01 \<and>
   backtest_body.fast_length (backtestBody (c\<lparr>config.fast_length := None\<rparr>)) = 12 \<and>
   backtest_body.slow_length (backtestBody (c\<lparr>config.slow_length := None\<rparr>)) = 26 \<and>
   backtest_body.signal_smoothing (backtestBody (c\<lparr>config.signal_smoothing := None\<rparr>)) = 9 \<and>
   backtest_body.timezone (backtestBody (c\<lparr>config.timezone := None\<rparr>)) = ''Asia/Singapore'' \<and>
   backtest_body.days_back (backtestBody (c\<lparr>config.days_back := Some 0\<rparr>)) = 7 \<and>
   backtest_body.take_profit (backtestBody (c\<lparr>config.take_profit := Some 0\<rparr>)) = 0.02 \<and>
   backtest_body.stop_loss (backtestBody (c\<lparr>config.stop_loss := Some 0\<rparr>)) = 0.01 \<and>
   backtest_body.fast_length (backtestBody (c\<lparr>config.fast_length := Some 0\<rparr>)) = 12 \<and>
   backtest_body.slow_length (backtestBody (c\<lparr>config.slow_length := Some 0\<rparr>)) = 26 \<and>
   backtest_body.signal_smoothing (backtestBody (c\<lparr>config.signal_smoothing := Some 0\<rparr>)) = 9 \<and>
   backtest_body.timezone (backtestBody (c\<lparr>config.timezone := Some []\<rparr>)) = ''Asia/Singapore'' \<and>
   backtest_body.days_back (backtestBody c) \<noteq> 0 \<and>
   backtest_body.take_profit (backtestBody c) \<noteq> 0 \<and>
   backtest_body.stop_loss (backtestBody c) \<noteq> 0 \<and>
   backtest_body.fast_length (backtestBody c) \<noteq> 0 \<and>
   backtest_body.slow_length (backtestBody c) \<noteq> 0 \<and>
   backtest_body.signal_smoothing (backtestBody c) \<noteq> 0 \<and>
   backtest_body.timezone (backtestBody c) \<noteq> [] \<and>
   (v \<noteq> 0 \<longrightarrow>
      backtest_body.days_back (backtestBody (c\<lparr>config.days_back := Some v\<rparr>)) = v \<and>
      backtest_body.take_profit (backtestBody (c\<lparr>config.take_profit := Some v\<rparr>)) = v \<and>
      backtest_body.stop_loss (backtestBody (c\<lparr>config.stop_loss := Some v\<rparr>)) = v \<and>
      backtest_body.fast_length (backtestBody (c\<lparr>config.fast_length := Some v\<rparr>)) = v \<and>
      backtest_body.slow_length (backtestBody (c\<lparr>config.slow_length := Some v\<rparr>)) = v \<and>
      backtest_body.signal_smoothing (backtestBody (c\<lparr>config.signal_smoothing := Some v\<rparr>)) = v) \<and>
   (z \<noteq> [] \<longrightarrow>
      backtest_body.timezone (backtestBody (c\<lparr>config.timezone := Some z\<rparr>)) = z) \<and>
   runBacktest post st smb itv c
     = runBacktest (\<lambda>req. post (smb, itv, backtestBody c)) st smb itv c"
  by (simp add: backtestBody_def or_num_def or_str_def runBacktest_def split: option.splits)

theorem backtestBody_falsy_defaults_witness:
  "(0.05::real) \<noteq> 0 \<and>
   ''UTC'' \<noteq> [] \<and>
   backtest_body.days_back (backtestBody (noConfig\<lparr>config.days_back := Some 0.05\<rparr>)) = 0.05 \<and>
   backtest_body.take_profit (backtestBody (noConfig\<lparr>config.take_profit := Some 0.05\<rparr>)) = 0.05 \<and>
   backtest_body.stop_loss (backtestBody (noConfig\<lparr>config.stop_loss := Some 0.05\<rparr>)) = 0.05 \<and>
   backtest_body.fast_length (backtestBody (noConfig\<lparr>config.fast_length := Some 0.05\<rparr>)) = 0.05 \<and>
   backtest_body.slow_length (backtestBody (noConfig\<lparr>config.slow_length := Some 0.05\<rparr>)) = 0.05 \<and>
   backtest_body.signal_smoothing (backtestBody (noConfig\<lparr>config.signal_smoothing := Some 0.05\<rparr>)) = 0.05 \<and>
   backtest_body.timezone (backtestBody (noConfig\<lparr>config.timezone := Some ''UTC''\<rparr>)) = ''UTC'' \<and>
   backtest_body.take_profit (backtestBody (noConfig\<lparr>config.take_profit := Some 0\<rparr>)) = 0.02 \<and>
   backtest_body.stop_loss (backtestBody (noConfig\<lparr>config.stop_loss := Some 0\<rparr>)) = 0.01"
  using backtestBody_falsy_defaults
    [of noConfig "0.05" "''UTC''" "\<lambda>req. Resolved None" initialHook "''ROSEUSDT''" "''5m''"]
  by simp

section \<open>Properties of the charts\<close>

lemma findIndexFrom_none:
  "\<not> (\<exists>i<length xs. P (xs ! i)) \<Longrightarrow> findIndexFrom P xs k = - 1"
proof (induction xs arbitrary: k)
  case Nil
  show ?case by simp
next
  case (Cons x xs)
  have "\<not> P x" using Cons.prems by auto
  moreover have "\<not> (\<exists>i<length xs. P (xs ! i))" using Cons.prems by fastforce
  ultimately show ?case using Cons.IH by simp
qed

lemma findIndexFrom_least:
  "\<exists>i<length xs. P (xs ! i) \<Longrightarrow>
     findIndexFrom P xs k = k + int (LEAST i. i < length xs \<and> P (xs ! i))"
proof (induction xs arbitrary: k)
  case Nil
  then show ?case by simp
next
  case (Cons x xs)
  show ?case
  proof (cases "P x")
    case True
    then show ?thesis by simp
  next
    case False
    from Cons.prems obtain i where i: "i < length (x # xs)" "P ((x # xs) ! i)" by blast
    with False obtain j where j: "i = Suc j" by (cases i) auto
    with i have ex: "\<exists>j<length xs. P (xs ! j)" by auto
    have "(LEAST n. n < length (x # xs) \<and> P ((x # xs) ! n))
            = Suc (LEAST m. Suc m < length (x # xs) \<and> P ((x # xs) ! Suc m))"
      by (rule Least_Suc [of _ i]) (use i False in auto)
    then have "(LEAST n. n < length (x # xs) \<and> P ((x # xs) ! n))
            = Suc (LEAST m. m < length xs \<and> P (xs ! m))"
      by simp
    then show ?thesis using False Cons.IH [OF ex, of "k + 1"] by simp
  qed
qed

lemma findIndex_least:
  "findIndex P xs =
     (if \<exists>i<length xs. P (xs ! i) then int (LEAST i. i < length xs \<and> P (xs ! i)) else - 1)"
  by (simp add: findIndex_def findIndexFrom_none findIndexFrom_least)

lemma least_index_in_range:
  "\<exists>i<length xs. P (xs ! i) \<Longrightarrow> (LEAST i. i < length xs \<and> P (xs ! i)) < length xs"
proof -
  assume "\<exists>i<length xs. P (xs ! i)"
  then obtain i where "i < length xs \<and> P (xs ! i)" by blast
  then have "(LEAST i. i < length xs \<and> P (xs ! i)) < length xs \<and>
             P (xs ! (LEAST i. i < length xs \<and> P (xs ! i)))"
    by (rule LeastI)
  then show ?thesis by simp
qed

lemma sorted_reaches_iff:
  fixes ts :: "int list"
  assumes "sorted_wrt (<) ts"
  shows "(\<exists>i<length ts. te \<le> ts ! i) \<longleftrightarrow> ts \<noteq> [] \<and> te \<le> last ts"
proof
  assume "\<exists>i<length ts. te \<le> ts ! i"
  then obtain i where i: "i < length ts" "te \<le> ts ! i" by blast
  then have ne: "ts \<noteq> []" by auto
  have "ts ! i \<le> ts ! (length ts - 1)"
  proof (cases "i = length ts - 1")
    case True
    then show ?thesis by simp
  next
    case False
    with i have "i < length ts - 1" by simp
    then have "ts ! i < ts ! (length ts - 1)"
      using sorted_wrt_nth_less [OF assms, of i "length ts - 1"] ne by simp
    then show ?thesis by simp
  qed
  with i ne show "ts \<noteq> [] \<and> te \<le> last ts" by (simp add: last_conv_nth)
next
  assume a: "ts \<noteq> [] \<and> te \<le> last ts"
  then have "length ts - 1 < length ts \<and> te \<le> ts ! (length ts - 1)"
    by (auto simp: last_conv_nth)
  then show "\<exists>i<length ts. te \<le> ts ! i" by blast
qed

lemma crossoverPoint_least:
  "crossoverPoint m t =
     (if \<exists>i<length (macd_series.timestamps m). entry_date t \<le> macd_series.timestamps m ! i
      then Some (entry_date t,
                 nth_opt (macd_series.vals m)
                   (int (LEAST i. i < length (macd_series.timestamps m) \<and>
                                  entry_date t \<le> macd_series.timestamps m ! i)))
      else None)"
  by (simp add: crossoverPoint_def findIndex_least Let_def)

lemma filterBoolean_map:
  "filterBoolean (map f xs) = map (\<lambda>x. the (f x)) (filter (\<lambda>x. f x \<noteq> None) xs)"
  by (induction xs) (auto split: option.splits)

text \<open>
  C2: for strictly increasing oscillator timestamps and a trade entered at \<open>te\<close>, the
  crossover point of the trade exists exactly when some timestamp is at or after \<open>te\<close>
  (that is, the sequence is non-empty and \<open>te\<close> is not after its last timestamp); it is
  then placed at the least index \<open>i\<close> with \<open>t_i \<ge> te\<close>, and its \<open>y\<close> is the oscillator
  value read at that index (the value itself when the value list is as long as the
  timestamp list). Otherwise the callback gives \<open>null\<close>, which \<open>filter(Boolean)\<close> drops:
  the markers of the chart are those of the trades that have such an index, in order.
\<close>

theorem crossover_alignment:
  assumes "sorted_wrt (<) (macd_series.timestamps m)"
  shows "crossoverPoint m t =
           (if macd_series.timestamps m \<noteq> [] \<and> entry_date t \<le> last (macd_series.timestamps m)
            then Some (entry_date t,
                       nth_opt (macd_series.vals m)
                         (int (LEAST i. i < length (macd_series.timestamps m) \<and>
                                        entry_date t \<le> macd_series.timestamps m ! i)))
            else None) \<and>
         (length (macd_series.vals m) = length (macd_series.timestamps m) \<and>
          macd_series.timestamps m \<noteq> [] \<and> entry_date t \<le> last (macd_series.timestamps m) \<longrightarrow>
            crossoverPoint m t =
              Some (entry_date t,
                    Some (macd_series.vals m !
                           (LEAST i. i < length (macd_series.timestamps m) \<and>
                                     entry_date t \<le> macd_series.timestamps m ! i)))) \<and>
         crossoverPoints m trs =
           map (\<lambda>t. (entry_date t,
                      nth_opt (macd_series.vals m)
                        (int (LEAST i. i < length (macd_series.timestamps m) \<and>
                                       entry_date t \<le> macd_series.timestamps m ! i))))
             (filter (\<lambda>t. macd_series.timestamps m \<noteq> [] \<and>
                           entry_date t \<le> last (macd_series.timestamps m)) trs) \<and>
         (macd ind = Some m \<longrightarrow>
            MACDChart (Some ind) (Some trs) =
              [MACD_Line (macd_series.timestamps m) (macd_series.vals m),
               Signal_Line (macd_series.timestamps m) (signal m),
               Histogram (macd_series.timestamps m) (histogram m)
                 (map (\<lambda>v. if v \<ge> 0 then ''#00ff88'' else ''#ff4976'') (histogram m))]
              @ (if crossoverPoints m trs = [] then []
                 else [MACD_Crossover (map fst (crossoverPoints m trs))
                         (map snd (crossoverPoints m trs))]))"
proof -
  let ?ts = "macd_series.timestamps m"
  have r: "(\<exists>i<length ?ts. te \<le> ?ts ! i) \<longleftrightarrow> ?ts \<noteq> [] \<and> te \<le> last ?ts" for te
    using assms by (rule sorted_reaches_iff)
  have p: "crossoverPoint m u =
           (if ?ts \<noteq> [] \<and> entry_date u \<le> last ?ts
            then Some (entry_date u,
                       nth_opt (macd_series.vals m)
                         (int (LEAST i. i < length ?ts \<and> entry_date u \<le> ?ts ! i)))
            else None)" for u
    unfolding crossoverPoint_least r by (rule refl)
  have q: "nth_opt (macd_series.vals m) (int (LEAST i. i < length ?ts \<and> entry_date t \<le> ?ts ! i))
           = Some (macd_series.vals m ! (LEAST i. i < length ?ts \<and> entry_date t \<le> ?ts ! i))"
    if "length (macd_series.vals m) = length ?ts" "?ts \<noteq> [] \<and> entry_date t \<le> last ?ts"
  proof -
    from that(2) have "\<exists>i<length ?ts. entry_date t \<le> ?ts ! i" by (simp add: r)
    then have "(LEAST i. i < length ?ts \<and> entry_date t \<le> ?ts ! i) < length ?ts"
      by (rule least_index_in_range)
    with that(1) show ?thesis by (simp add: nth_opt_def)
  qed
  have s: "crossoverPoints m trs =
           map (\<lambda>t. (entry_date t,
                      nth_opt (macd_series.vals m)
                        (int (LEAST i. i < length ?ts \<and> entry_date t \<le> ?ts ! i))))
             (filter (\<lambda>t. ?ts \<noteq> [] \<and> entry_date t \<le> last ?ts) trs)"
  proof -
    have f: "filter (\<lambda>u. crossoverPoint m u \<noteq> None) trs
             = filter (\<lambda>t. ?ts \<noteq> [] \<and> entry_date t \<le> last ?ts) trs"
      by (simp add: p)
    show ?thesis
      unfolding crossoverPoints_def filterBoolean_map f
      by (rule map_cong) (simp_all add: p)
  qed
  have ch: "MACDChart (Some ind) (Some trs) =
              [MACD_Line ?ts (macd_series.vals m), Signal_Line ?ts (signal m),
               Histogram ?ts (histogram m)
                 (map (\<lambda>v. if v \<ge> 0 then ''#00ff88'' else ''#ff4976'') (histogram m))]
              @ (if crossoverPoints m trs = [] then []
                 else [MACD_Crossover (map fst (crossoverPoints m trs))
                         (map snd (crossoverPoints m trs))])"
    if "macd ind = Some m"
    using that by (cases trs) (simp_all add: MACDChart_def Let_def crossoverPoints_def)
  from p [of t] q have pq: "crossoverPoint m t =
           (if ?ts \<noteq> [] \<and> entry_date t \<le> last ?ts
            then Some (entry_date t,
                       nth_opt (macd_series.vals m)
                         (int (LEAST i. i < length ?ts \<and> entry_date t \<le> ?ts ! i)))
            else None) \<and>
         (length (macd_series.vals m) = length ?ts \<and> ?ts \<noteq> [] \<and> entry_date t \<le> last ?ts \<longrightarrow>
            crossoverPoint m t =
              Some (entry_date t,
                    Some (macd_series.vals m !
                           (LEAST i. i < length ?ts \<and> entry_date t \<le> ?ts ! i))))"
    by simp
  from pq s ch show ?thesis by blast
qed


theorem crossover_alignment_witness:
  "sorted_wrt (<) (macd_series.timestamps sampleMacd) \<and>
   length (macd_series.vals sampleMacd) = length (macd_series.timestamps sampleMacd) \<and>
   crossoverPoint sampleMacd sampleTrade = Some (15, Some 0.2) \<and>
   crossoverPoint sampleMacd (sampleTrade\<lparr>entry_date := 20\<rparr>) = Some (20, Some 0.2) \<and>
   crossoverPoint sampleMacd (sampleTrade\<lparr>entry_date := 31\<rparr>) = None \<and>
   crossoverPoints sampleMacd
     [sampleTrade, sampleTrade\<lparr>entry_date := 31\<rparr>, sampleTrade\<lparr>entry_date := 5\<rparr>]
     = [(15, Some 0.2), (5, Some 0.1)] \<and>
   MACDChart (Some sampleIndicators) (Some [sampleTrade\<lparr>entry_date := 31\<rparr>, sampleTrade]) =
     [MACD_Line [10, 20, 30] [0.1, 0.2, 0.3], Signal_Line [10, 20, 30] [0.1, 0.1, 0.1],
      Histogram [10, 20, 30] [0, 0.1, 0.2] [''#00ff88'', ''#00ff88'', ''#00ff88''],
      MACD_Crossover [15] [Some 0.2]]"
proof -
  have a: "sorted_wrt (<) (macd_series.timestamps sampleMacd)"
    by (simp add: sampleMacd_def)
  have b: "crossoverPoint sampleMacd sampleTrade = Some (15, Some 0.2)"
    by (simp add: crossoverPoint_def findIndex_def nth_opt_def sampleMacd_def sampleTrade_def)
  have c: "crossoverPoint sampleMacd (sampleTrade\<lparr>entry_date := 20\<rparr>) = Some (20, Some 0.2)"
    by (simp add: crossoverPoint_def findIndex_def nth_opt_def sampleMacd_def sampleTrade_def)
  have d: "crossoverPoint sampleMacd (sampleTrade\<lparr>entry_date := 31\<rparr>) = None"
    by (simp add: crossoverPoint_def findIndex_def nth_opt_def sampleMacd_def sampleTrade_def)
  have e: "crossoverPoint sampleMacd (sampleTrade\<lparr>entry_date := 5\<rparr>) = Some (5, Some 0.1)"
    by (simp add: crossoverPoint_def findIndex_def nth_opt_def sampleMacd_def sampleTrade_def)
  have f: "length (macd_series.vals sampleMacd) = length (macd_series.timestamps sampleMacd)"
    by (simp add: sampleMacd_def)
  from crossover_alignment [OF a, of sampleTrade "[]"]
  have g: "crossoverPoint sampleMacd sampleTrade \<noteq> None"
    by (simp add: sampleMacd_def sampleTrade_def)
  have h: "MACDChart (Some sampleIndicators)
             (Some [sampleTrade\<lparr>entry_date := 31\<rparr>, sampleTrade]) =
     [MACD_Line [10, 20, 30] [0.1, 0.2, 0.3], Signal_Line [10, 20, 30] [0.1, 0.1, 0.1],
      Histogram [10, 20, 30] [0, 0.1, 0.2] [''#00ff88'', ''#00ff88'', ''#00ff88''],
      MACD_Crossover [15] [Some 0.2]]"
    by (simp add: MACDChart_def sampleIndicators_def crossoverPoints_def b d Let_def)
       (simp add: sampleMacd_def)
  from g a b c d e f h show ?thesis
    by (simp add: crossoverPoints_def)
qed

lemma chart_full:
  "trs \<noteq> [] \<Longrightarrow>
   CandlestickChart (Some d) (Some ind) (Some trs) =
     [Price (market_data.timestamps d) (map Open (ohlcv d)) (map High (ohlcv d))
        (map Low (ohlcv d)) (map Close (ohlcv d))]
     @ (case ema_200 ind of
          None \<Rightarrow> []
        | Some e \<Rightarrow> if ema_series.vals e = [] then []
                    else [EMA_200 (ema_series.timestamps e) (ema_series.vals e)])
     @ [Buy_Signals (map entry_date trs) (map entry_price trs),
        Exit_Signals (map exit_date trs) (map exit_price trs)
          (map (\<lambda>t. exitColor (return_pct t)) trs)
          (map (\<lambda>t. exitText (exit_reason t) (return_pct t)) trs)]"
  by (simp add: CandlestickChart_def Let_def comp_def split: option.splits)

text \<open>
  C5: the price chart builds the empty list when the dataset or the indicators are \<open>null\<close>;
  for a dataset \<open>d\<close>, a non-empty EMA series and at least one trade, it builds exactly the
  price trace over the bars of \<open>d\<close>, the EMA trace, the entry markers of all trades at
  (\<open>entry_date\<close>, \<open>entry_price\<close>) and the exit markers of all trades at (\<open>exit_date\<close>,
  \<open>exit_price\<close>), in that order.
\<close>

theorem candlestick_traces:
  "CandlestickChart None inds trs = [] \<and>
   CandlestickChart dat None trs = [] \<and>
   (ema_200 ind = Some e \<and> ema_series.vals e \<noteq> [] \<and> length ts \<ge> 1 \<longrightarrow>
      CandlestickChart (Some d) (Some ind) (Some ts) =
        [Price (market_data.timestamps d) (map Open (ohlcv d)) (map High (ohlcv d))
           (map Low (ohlcv d)) (map Close (ohlcv d)),
         EMA_200 (ema_series.timestamps e) (ema_series.vals e),
         Buy_Signals (map entry_date ts) (map entry_price ts),
         Exit_Signals (map exit_date ts) (map exit_price ts)
           (map (\<lambda>t. exitColor (return_pct t)) ts)
           (map (\<lambda>t. exitText (exit_reason t) (return_pct t)) ts)])"
proof -
  have a: "CandlestickChart None inds trs = []"
    by (simp add: CandlestickChart_def)
  have b: "CandlestickChart dat None trs = []"
    by (simp add: CandlestickChart_def split: option.splits)
  have c: "CandlestickChart (Some d) (Some ind) (Some ts) =
        [Price (market_data.timestamps d) (map Open (ohlcv d)) (map High (ohlcv d))
           (map Low (ohlcv d)) (map Close (ohlcv d)),
         EMA_200 (ema_series.timestamps e) (ema_series.vals e),
         Buy_Signals (map entry_date ts) (map entry_price ts),
         Exit_Signals (map exit_date ts) (map exit_price ts)
           (map (\<lambda>t. exitColor (return_pct t)) ts)
           (map (\<lambda>t. exitText (exit_reason t) (return_pct t)) ts)]"
    if "ema_200 ind = Some e" "ema_series.vals e \<noteq> []" "length ts \<ge> 1"
  proof -
    from that(3) have "ts \<noteq> []" by auto
    from chart_full [OF this, of d ind] that(1,2) show ?thesis by simp
  qed
  from a b c show ?thesis by blast
qed

theorem candlestick_traces_witness:
  "ema_200 sampleIndicators = Some sampleEma \<and> ema_series.vals sampleEma \<noteq> [] \<and>
   length [sampleTrade, sampleTrade\<lparr>exit_date := 30, return_pct := 0.02\<rparr>] \<ge> 1 \<and>
   CandlestickChart (Some sampleData) (Some sampleIndicators)
       (Some [sampleTrade, sampleTrade\<lparr>exit_date := 30, return_pct := 0.02\<rparr>]) =
     [Price [10, 20, 30] [100, 100.5, 101] [101, 102, 101] [99, 100, 98] [100.5, 101, 98.7],
      EMA_200 [20, 30] [99, 99.5],
      Buy_Signals [15, 15] [100, 100],
      Exit_Signals [25, 30] [98.7, 98.7] [''#ff4976'', ''#00ff88'']
        [exitText ''stop_loss'' (- 0.013), exitText ''stop_loss'' 0.02]]"
  using candlestick_traces [where ind = sampleIndicators and e = sampleEma and d = sampleData
      and ts = "[sampleTrade, sampleTrade\<lparr>exit_date := 30, return_pct := 0.02\<rparr>]"]
  by (simp add: sampleIndicators_def sampleEma_def sampleTrade_def sampleData_def exitColor_def)


lemma exitText_rounds_product_down:
  "exitText ''take_profit'' (0.01005) = Some ''take_profit<br>Return: 1.00%''"
proof -
  have i1: "ilog2 \<bar>0.01005\<bar> = - 7"
    by (simp add: ilog2_def bits.simps)
  have d1: "double (0.01005) = (5793430560649406 / 2 ^ 59)"
    using i1 by (simp add: double_def pow2_def roundTiesToEven_def Let_def)
  have i2: "ilog2 100 = 6"
    by (simp add: ilog2_def bits.simps)
  have d2: "double 100 = 100"
    using i2 by (simp add: double_def pow2_def roundTiesToEven_def Let_def)
  have i3: "ilog2 \<bar>(5793430560649406 / 2 ^ 59) * 100\<bar> = 0"
    by (simp add: ilog2_def bits.simps)
  have d3: "double ((5793430560649406 / 2 ^ 59) * 100) = (4526117625507348 / 2 ^ 52)"
    using i3 by (simp add: double_def pow2_def roundTiesToEven_def Let_def)
  have m: "mul (0.01005) 100 = (4526117625507348 / 2 ^ 52)"
    unfolding mul_def d1 d2 d3 by (rule refl)
  have n: "nat \<lfloor>\<bar>(4526117625507348 / 2 ^ 52) :: real\<bar> * 10 ^ 2 + 1 / 2\<rfloor> = 100"
    by simp
  have c: "decimal 100 = ''100''"
    by (simp add: digit_char_def decimal.simps)
  have r: "\<not> (2 > (100::nat) \<or> \<bar>(4526117625507348 / 2 ^ 52) :: real\<bar> \<ge> 10 ^ 21)"
    by simp
  have t: "toFixed 2 ((4526117625507348 / 2 ^ 52)) = Some ''1.00''"
    unfolding toFixed_def n c Let_def if_not_P [OF r] by simp
  show ?thesis
    unfolding exitText_def m t by simp
qed

lemma exitText_rounds_product_down2:
  "exitText ''take_profit'' (0.00035) = Some ''take_profit<br>Return: 0.03%''"
proof -
  have i1: "ilog2 \<bar>0.00035\<bar> = - 12"
    by (simp add: ilog2_def bits.simps)
  have d1: "double (0.00035) = (6456360425798343 / 2 ^ 64)"
    using i1 by (simp add: double_def pow2_def roundTiesToEven_def Let_def)
  have i2: "ilog2 100 = 6"
    by (simp add: ilog2_def bits.simps)
  have d2: "double 100 = 100"
    using i2 by (simp add: double_def pow2_def roundTiesToEven_def Let_def)
  have i3: "ilog2 \<bar>(6456360425798343 / 2 ^ 64) * 100\<bar> = - 5"
    by (simp add: ilog2_def bits.simps)
  have d3: "double ((6456360425798343 / 2 ^ 64) * 100) = (5044031582654955 / 2 ^ 57)"
    using i3 by (simp add: double_def pow2_def roundTiesToEven_def Let_def)
  have m: "mul (0.00035) 100 = (5044031582654955 / 2 ^ 57)"
    unfolding mul_def d1 d2 d3 by (rule refl)
  have n: "nat \<lfloor>\<bar>(5044031582654955 / 2 ^ 57) :: real\<bar> * 10 ^ 2 + 1 / 2\<rfloor> = 3"
    by simp
  have c: "decimal 3 = ''3''"
    by (simp add: digit_char_def decimal.simps)
  have r: "\<not> (2 > (100::nat) \<or> \<bar>(5044031582654955 / 2 ^ 57) :: real\<bar> \<ge> 10 ^ 21)"
    by simp
  have t: "toFixed 2 ((5044031582654955 / 2 ^ 57)) = Some ''0.03''"
    unfolding toFixed_def n c Let_def if_not_P [OF r] by simp
  show ?thesis
    unfolding exitText_def m t by simp
qed




end
